theory Spec2Isabelle
  imports Main
begin

section \<open>The log relay client of \<^verbatim>\<open>scripts/read_socket.py\<close>\<close>

text \<open>
  The script is one coroutine, \<^verbatim>\<open>listen\<close>: an outer \<^verbatim>\<open>while True\<close> that opens a
  WebSocket connection inside a \<^verbatim>\<open>try\<close>, and an inner \<^verbatim>\<open>while True\<close> that receives
  a frame, parses it as JSON, prints one formatted line, and leaves the loop from either
  of its two handlers.

  The coroutine is deterministic once the answers of its surroundings are fixed: what each
  call of \<^verbatim>\<open>websockets.connect\<close> does and what each call of \<^verbatim>\<open>recv\<close> does.
  The model runs the code against a finite script of such answers and returns what the
  code did (a list of actions, in order) together with the place where it stands when the
  script is used up.
\<close>

subsection \<open>Exceptions\<close>

text \<open>
  An exception value carries the names of the classes on the method resolution order of
  its class, and the text that \<^verbatim>\<open>str(e)\<close> gives. A clause \<^verbatim>\<open>except C\<close> matches an
  exception exactly when \<^verbatim>\<open>C\<close> is on that order.
\<close>

type_synonym pyclass = string

record pyexc =
  exc_mro :: "pyclass list"
  exc_str :: string

definition isinstance :: "pyexc \<Rightarrow> pyclass \<Rightarrow> bool" where
  "isinstance e c \<longleftrightarrow> c \<in> set (exc_mro e)"

text \<open>The exceptions of the standard library and of \<^verbatim>\<open>websockets\<close> that occur below.\<close>

definition KeyError :: "string \<Rightarrow> pyexc" where
  "KeyError s =
     \<lparr>exc_mro = [''KeyError'', ''LookupError'', ''Exception'', ''BaseException'', ''object''],
      exc_str = s\<rparr>"

definition TypeError :: "string \<Rightarrow> pyexc" where
  "TypeError s =
     \<lparr>exc_mro = [''TypeError'', ''Exception'', ''BaseException'', ''object''],
      exc_str = s\<rparr>"

definition JSONDecodeError :: "string \<Rightarrow> pyexc" where
  "JSONDecodeError s =
     \<lparr>exc_mro = [''JSONDecodeError'', ''ValueError'', ''Exception'', ''BaseException'',
                 ''object''],
      exc_str = s\<rparr>"

definition ConnectionRefusedError :: "string \<Rightarrow> pyexc" where
  "ConnectionRefusedError s =
     \<lparr>exc_mro = [''ConnectionRefusedError'', ''ConnectionError'', ''OSError'', ''Exception'',
                 ''BaseException'', ''object''],
      exc_str = s\<rparr>"

definition ConnectionClosedOK :: "string \<Rightarrow> pyexc" where
  "ConnectionClosedOK s =
     \<lparr>exc_mro = [''ConnectionClosedOK'', ''ConnectionClosed'', ''WebSocketException'',
                 ''Exception'', ''BaseException'', ''object''],
      exc_str = s\<rparr>"

definition ConnectionClosedError :: "string \<Rightarrow> pyexc" where
  "ConnectionClosedError s =
     \<lparr>exc_mro = [''ConnectionClosedError'', ''ConnectionClosed'', ''WebSocketException'',
                 ''Exception'', ''BaseException'', ''object''],
      exc_str = s\<rparr>"

definition InvalidStatus :: "string \<Rightarrow> pyexc" where
  "InvalidStatus s =
     \<lparr>exc_mro = [''InvalidStatus'', ''InvalidHandshake'', ''WebSocketException'',
                 ''Exception'', ''BaseException'', ''object''],
      exc_str = s\<rparr>"

definition UnicodeEncodeError :: "string \<Rightarrow> pyexc" where
  "UnicodeEncodeError s =
     \<lparr>exc_mro = [''UnicodeEncodeError'', ''UnicodeError'', ''ValueError'', ''Exception'',
                 ''BaseException'', ''object''],
      exc_str = s\<rparr>"

definition CancelledError :: "string \<Rightarrow> pyexc" where
  "CancelledError s =
     \<lparr>exc_mro = [''CancelledError'', ''BaseException'', ''object''],
      exc_str = s\<rparr>"

subsection \<open>Values and the library\<close>

text \<open>
  What \<^verbatim>\<open>json.loads\<close> returns: \<^verbatim>\<open>None\<close>, a \<^verbatim>\<open>bool\<close>, an \<^verbatim>\<open>int\<close>, a
  \<^verbatim>\<open>float\<close>, a \<^verbatim>\<open>str\<close>, a \<^verbatim>\<open>list\<close> or a \<^verbatim>\<open>dict\<close> with string keys. A dict
  is a list of key-value pairs in insertion order, its keys distinct. Floats are kept
  abstract (the type parameter).

  A Python \<^verbatim>\<open>str\<close> is a sequence of code points; it is modelled by the bytes of its
  UTF-8 encoding, and a lone surrogate, which has none, by the three bytes that the
  \<^verbatim>\<open>surrogatepass\<close> handler gives it (\<^verbatim>\<open>ED A0 80\<close> for U+D800). Concatenation of
  strings is concatenation of these byte lists.
\<close>

datatype 'f pyval =
    PNone
  | PBool bool
  | PInt int
  | PFloat 'f
  | PStr string
  | PList "'f pyval list"
  | PDict "(string \<times> 'f pyval) list"

text \<open>A frame as \<^verbatim>\<open>recv\<close> returns it: a \<^verbatim>\<open>str\<close> for a text frame, \<^verbatim>\<open>bytes\<close> for a
  binary one.\<close>

datatype frame = TextFrame string | BinaryFrame string

text \<open>
  The script calls four things of the Python library whose code is not part of it; they
  are parameters of the model: \<^verbatim>\<open>json.loads\<close> (which returns a value or raises),
  \<^verbatim>\<open>repr\<close> of a float, \<^verbatim>\<open>repr\<close> of a string, and what \<^verbatim>\<open>print\<close> does with a
  text: it writes it (\<open>None\<close>) or it raises, as it does when the encoding of standard
  output has no bytes for the text.
\<close>

record 'f pylib =
  json_loads :: "frame \<Rightarrow> pyexc + 'f pyval"
  float_repr :: "'f \<Rightarrow> string"
  str_repr :: "string \<Rightarrow> string"
  print_raises :: "string \<Rightarrow> pyexc option"

subsection \<open>Formatting: what \<^verbatim>\<open>{...}\<close> in an f-string does\<close>

definition digit_char :: "nat \<Rightarrow> char" where
  "digit_char d = ''0123456789'' ! d"

function str_nat :: "nat \<Rightarrow> string" where
  "str_nat n = (if n < 10 then [digit_char n] else str_nat (n div 10) @ [digit_char (n mod 10)])"
  by pat_completeness auto
termination
  by (relation "measure id") auto

definition str_int :: "int \<Rightarrow> string" where
  "str_int i = (if i < 0 then CHR ''-'' # str_nat (nat (- i)) else str_nat (nat i))"

fun join :: "string \<Rightarrow> string list \<Rightarrow> string" where
  "join sep [] = []"
| "join sep [x] = x"
| "join sep (x # y # ys) = x @ sep @ join sep (y # ys)"

text \<open>\<^verbatim>\<open>repr(v)\<close>: a list and a dict show their elements with \<^verbatim>\<open>repr\<close>.\<close>

fun py_repr :: "'f pylib \<Rightarrow> 'f pyval \<Rightarrow> string" where
  "py_repr L PNone = ''None''"
| "py_repr L (PBool b) = (if b then ''True'' else ''False'')"
| "py_repr L (PInt i) = str_int i"
| "py_repr L (PFloat x) = float_repr L x"
| "py_repr L (PStr s) = str_repr L s"
| "py_repr L (PList vs) = ''['' @ join '', '' (map (py_repr L) vs) @ '']''"
| "py_repr L (PDict kvs) =
     ''{'' @ join '', '' (map (\<lambda>kv. str_repr L (fst kv) @ '': '' @ py_repr L (snd kv)) kvs) @ ''}''"

text \<open>
  \<^verbatim>\<open>format(v, "")\<close>, which is what a replacement field without a format spec calls: a
  string is itself, everything else is its \<^verbatim>\<open>str\<close>, which for these types is its
  \<^verbatim>\<open>repr\<close>.
\<close>

fun py_format :: "'f pylib \<Rightarrow> 'f pyval \<Rightarrow> string" where
  "py_format L (PStr s) = s"
| "py_format L v = py_repr L v"

subsection \<open>Subscription: \<^verbatim>\<open>log_data[key]\<close> with a string key\<close>

text \<open>
  A dict looks the key up and raises \<^verbatim>\<open>KeyError\<close> when it is absent (its text is
  the \<^verbatim>\<open>repr\<close> of the key); every other value raises \<^verbatim>\<open>TypeError\<close>, with the
  text CPython 3.11 gives.
\<close>

definition quote :: "string \<Rightarrow> string" where
  "quote s = [CHR 0x27] @ s @ [CHR 0x27]"

fun getitem :: "'f pylib \<Rightarrow> 'f pyval \<Rightarrow> string \<Rightarrow> pyexc + 'f pyval" where
  "getitem L (PDict kvs) k =
     (case map_of kvs k of
        None \<Rightarrow> Inl (KeyError (str_repr L k))
      | Some v \<Rightarrow> Inr v)"
| "getitem L (PList vs) k = Inl (TypeError ''list indices must be integers or slices, not str'')"
| "getitem L (PStr s) k = Inl (TypeError (''string indices must be integers, not '' @ quote ''str''))"
| "getitem L PNone k = Inl (TypeError (quote ''NoneType'' @ '' object is not subscriptable''))"
| "getitem L (PBool b) k = Inl (TypeError (quote ''bool'' @ '' object is not subscriptable''))"
| "getitem L (PInt i) k = Inl (TypeError (quote ''int'' @ '' object is not subscriptable''))"
| "getitem L (PFloat x) k = Inl (TypeError (quote ''float'' @ '' object is not subscriptable''))"

subsection \<open>What the coroutine does\<close>

text \<open>
  The calls that can be seen from outside: on the socket (\<open>Connect\<close>, \<open>Recv\<close>,
  \<open>Send\<close>, \<open>Close\<close>), on standard output (\<open>Print\<close>, one call of \<^verbatim>\<open>print\<close>
  with the text it is given) and on the clock (\<open>Sleep\<close>, in seconds). \<open>Close\<close> is the
  exit of the \<^verbatim>\<open>async with\<close> block. A \<open>Print\<close> in the list is a call of
  \<^verbatim>\<open>print\<close> that wrote its text. The \<^verbatim>\<open>print\<close> of the inner \<^verbatim>\<open>try\<close>, whose text
  comes from the frame, writes or raises as the library parameter says; the \<^verbatim>\<open>print\<close>
  calls of the three handlers, the exit of the block and \<^verbatim>\<open>asyncio.sleep\<close> are taken
  to complete.
\<close>

datatype action =
    Connect string
  | Recv
  | Send string
  | Close
  | Print string
  | Sleep nat

text \<open>
  What a call answers: it returns a value or it raises. A connection is the list of the
  answers of its \<^verbatim>\<open>recv\<close> calls; a script is the list of the answers of the
  \<^verbatim>\<open>websockets.connect\<close> calls, each successful one with its connection.
\<close>

datatype 'a answer = Returns 'a | Raises pyexc

type_synonym connection = "frame answer list"

type_synonym script = "connection answer list"

text \<open>
  How a piece of code ends: it runs to its end (\<open>Continue\<close>, the enclosing loop goes
  round), it leaves the loop by \<^verbatim>\<open>break\<close>, it raises, or it is suspended in a call of
  \<^verbatim>\<open>recv\<close> that the script has no answer for.
\<close>

datatype flow = Continue | Break | Raise pyexc | Blocked

text \<open>
  Where \<^verbatim>\<open>listen\<close> stands at the end of the script: suspended in
  \<^verbatim>\<open>websockets.connect\<close> (the state the specification calls Disconnected), suspended in
  \<^verbatim>\<open>recv\<close> (Connected), left by an exception that no handler caught (the process
  ends with a traceback), or returned.
\<close>

datatype status = InConnect | InRecv | Uncaught pyexc | Returned

definition after :: "action list \<Rightarrow> action list \<times> 'a \<Rightarrow> action list \<times> 'a" where
  "after acts r = (acts @ fst r, snd r)"

text \<open>
  The three statements of the inner \<^verbatim>\<open>try\<close>:
  \<^verbatim>\<open>
  message = await websocket.recv()
  log_data = json.loads(message)
  print(f"[{log_data['type']}] {log_data['message']}")
  \<close>
  Each of the four steps (\<^verbatim>\<open>recv\<close>, \<^verbatim>\<open>json.loads\<close>, the two subscripts in their
  order, \<^verbatim>\<open>print\<close>) can raise, and the first exception ends the body. The result is
  that exception, or the text that \<^verbatim>\<open>print\<close> wrote.
\<close>

definition try_body :: "'f pylib \<Rightarrow> frame answer \<Rightarrow> pyexc + string" where
  "try_body L r =
     (case r of
        Raises e \<Rightarrow> Inl e
      | Returns message \<Rightarrow>
          (case json_loads L message of
             Inl e \<Rightarrow> Inl e
           | Inr log_data \<Rightarrow>
               (case getitem L log_data ''type'' of
                  Inl e \<Rightarrow> Inl e
                | Inr t \<Rightarrow>
                    (case getitem L log_data ''message'' of
                       Inl e \<Rightarrow> Inl e
                     | Inr m \<Rightarrow>
                         (let line = ''['' @ py_format L t @ ''] '' @ py_format L m in
                          case print_raises L line of
                            Some e \<Rightarrow> Inl e
                          | None \<Rightarrow> Inr line)))))"

text \<open>
  One round of the inner loop: the \<^verbatim>\<open>try\<close> with its two handlers, in their order.
  When the body ends without an exception its \<^verbatim>\<open>print\<close> has written the line; an
  exception of the body, that of \<^verbatim>\<open>print\<close> too, goes to the handlers.
\<close>

definition inner_iteration :: "'f pylib \<Rightarrow> frame answer \<Rightarrow> action list \<times> flow" where
  "inner_iteration L r =
     (case try_body L r of
        Inr line \<Rightarrow> ([Recv, Print line], Continue)
      | Inl e \<Rightarrow>
          if isinstance e ''ConnectionClosed'' then
            ([Recv, Print ''Connection closed.''], Break)
          else if isinstance e ''Exception'' then
            ([Recv, Print (''An error occurred: '' @ exc_str e)], Break)
          else ([Recv], Raise e))"

text \<open>The inner \<^verbatim>\<open>while True\<close>. When the script has no answer left, \<^verbatim>\<open>recv\<close> has been
  called and has not returned.\<close>

fun inner_loop :: "'f pylib \<Rightarrow> connection \<Rightarrow> action list \<times> flow" where
  "inner_loop L [] = ([Recv], Blocked)"
| "inner_loop L (r # rs) =
     (case inner_iteration L r of
        (acts, Continue) \<Rightarrow> after acts (inner_loop L rs)
      | (acts, Break) \<Rightarrow> (acts, Continue)
      | (acts, Raise e) \<Rightarrow> (acts, Raise e)
      | (acts, Blocked) \<Rightarrow> (acts, Blocked))"

text \<open>
  \<^verbatim>\<open>async with websockets.connect(uri) as websocket:\<close> around the inner loop. When
  connecting raises, the block is not entered. When the block is left, by its end or by
  an exception, the connection is closed and the exception goes on.
\<close>

definition async_with :: "'f pylib \<Rightarrow> string \<Rightarrow> connection answer \<Rightarrow> action list \<times> flow" where
  "async_with L uri c =
     (case c of
        Raises e \<Rightarrow> ([Connect uri], Raise e)
      | Returns websocket \<Rightarrow>
          (case inner_loop L websocket of
             (acts, Blocked) \<Rightarrow> (Connect uri # acts, Blocked)
           | (acts, fl) \<Rightarrow> (Connect uri # acts @ [Close], fl)))"

text \<open>One round of the outer loop: the outer \<^verbatim>\<open>try\<close> with its handler for
  \<^verbatim>\<open>(OSError, websockets.exceptions.ConnectionClosedError)\<close>.\<close>

definition outer_iteration :: "'f pylib \<Rightarrow> string \<Rightarrow> connection answer \<Rightarrow> action list \<times> flow" where
  "outer_iteration L uri c =
     (case async_with L uri c of
        (acts, Raise e) \<Rightarrow>
          if isinstance e ''OSError'' \<or> isinstance e ''ConnectionClosedError'' then
            (acts @ [Print ''Connection failed. Retrying in 5 seconds...'', Sleep 5], Continue)
          else (acts, Raise e)
      | (acts, fl) \<Rightarrow> (acts, fl))"

text \<open>The outer \<^verbatim>\<open>while True\<close>. When the script has no answer left,
  \<^verbatim>\<open>websockets.connect\<close> has been called and has not returned.\<close>

fun outer_loop :: "'f pylib \<Rightarrow> string \<Rightarrow> script \<Rightarrow> action list \<times> status" where
  "outer_loop L uri [] = ([Connect uri], InConnect)"
| "outer_loop L uri (c # cs) =
     (case outer_iteration L uri c of
        (acts, Continue) \<Rightarrow> after acts (outer_loop L uri cs)
      | (acts, Break) \<Rightarrow> (acts, Returned)
      | (acts, Raise e) \<Rightarrow> (acts, Uncaught e)
      | (acts, Blocked) \<Rightarrow> (acts, InRecv))"

definition listen :: "'f pylib \<Rightarrow> script \<Rightarrow> action list \<times> status" where
  "listen L sc = (let uri = ''ws://localhost:3001'' in outer_loop L uri sc)"

subsection \<open>A library instance for concrete runs\<close>

text \<open>
  For running the model on concrete frames. The floats are the three that
  \<^verbatim>\<open>json.loads\<close> reads from the constants \<^verbatim>\<open>NaN\<close>, \<^verbatim>\<open>Infinity\<close> and
  \<^verbatim>\<open>-Infinity\<close>, which it accepts although they are not JSON.
\<close>

datatype sample_float = NaN | Infinity | MinusInfinity

fun sample_float_repr :: "sample_float \<Rightarrow> string" where
  "sample_float_repr NaN = ''nan''"
| "sample_float_repr Infinity = ''inf''"
| "sample_float_repr MinusInfinity = ''-inf''"

text \<open>
  \<^verbatim>\<open>json.loads\<close> on nine frames, with the value Python gives for each; a \<^verbatim>\<open>\uXXXX\<close>
  escape of a lone surrogate gives that surrogate. On any other frame it answers with the
  error Python raises for text that is not JSON; the runs below give it \<^verbatim>\<open>not json\<close>
  only.
\<close>

definition sample_loads :: "frame \<Rightarrow> pyexc + sample_float pyval" where
  \<open>sample_loads f =
     (if f = TextFrame ''{"type":"INFO","message":"started"}'' then
        Inr (PDict [(''type'', PStr ''INFO''), (''message'', PStr ''started'')])
      else if f = TextFrame ''{"type":"ERROR","message":"disk full"}'' then
        Inr (PDict [(''type'', PStr ''ERROR''), (''message'', PStr ''disk full'')])
      else if f = TextFrame ''{"type": 1, "message": 2}'' then
        Inr (PDict [(''type'', PInt 1), (''message'', PInt 2)])
      else if f = TextFrame ''{"type": "INFO"}'' then
        Inr (PDict [(''type'', PStr ''INFO'')])
      else if f = TextFrame ''{"type": NaN, "message": "x"}'' then
        Inr (PDict [(''type'', PFloat NaN), (''message'', PStr ''x'')])
      else if f = TextFrame (''{"type":"'' @ [CHR 0x5C] @ ''ud800","message":"x"}'') then
        Inr (PDict [(''type'', PStr [CHR 0xED, CHR 0xA0, CHR 0x80]), (''message'', PStr ''x'')])
      else if f = TextFrame (''{"type": 1, "message": "'' @ [CHR 0x5C] @ ''udfff"}'') then
        Inr (PDict [(''type'', PInt 1), (''message'', PStr [CHR 0xED, CHR 0xBF, CHR 0xBF])])
      else if f = TextFrame
          ''{"type": [1, "a", null, true, false, {"k": -12, "j": []}, Infinity, -Infinity], "message": {}}''
      then
        Inr (PDict
          [(''type'',
            PList [PInt 1, PStr ''a'', PNone, PBool True, PBool False,
                   PDict [(''k'', PInt (- 12)), (''j'', PList [])],
                   PFloat Infinity, PFloat MinusInfinity]),
           (''message'', PDict [])])
      else if f = TextFrame ''{"type": 1234567890, "message": [[]]}'' then
        Inr (PDict [(''type'', PInt 1234567890), (''message'', PList [PList []])])
      else Inl (JSONDecodeError ''Expecting value: line 1 column 1 (char 0)''))\<close>

text \<open>
  \<^verbatim>\<open>print\<close> on a standard output that encodes as UTF-8 with the \<^verbatim>\<open>strict\<close> handler:
  a text without surrogates is written; otherwise \<^verbatim>\<open>UnicodeEncodeError\<close> is raised,
  and its text names the first run of surrogates by its position, counted in code points.
\<close>

definition is_continuation :: "char \<Rightarrow> bool" where
  "is_continuation c \<longleftrightarrow> 128 \<le> (of_char c :: nat) \<and> (of_char c :: nat) < 192"

fun surrogate_head :: "string \<Rightarrow> bool" where
  "surrogate_head (c1 # c2 # c3 # cs) \<longleftrightarrow> (of_char c1 :: nat) = 237 \<and> 160 \<le> (of_char c2 :: nat)"
| "surrogate_head cs \<longleftrightarrow> False"

fun surrogate_run :: "string \<Rightarrow> nat" where
  "surrogate_run (c1 # c2 # c3 # cs) =
     (if surrogate_head (c1 # c2 # c3 # cs) then Suc (surrogate_run cs) else 0)"
| "surrogate_run cs = 0"

fun first_surrogate :: "nat \<Rightarrow> string \<Rightarrow> (nat \<times> string) option" where
  "first_surrogate i [] = None"
| "first_surrogate i (c # cs) =
     (if surrogate_head (c # cs) then Some (i, c # cs)
      else first_surrogate (if is_continuation c then i else Suc i) cs)"

definition hex_char :: "nat \<Rightarrow> char" where
  "hex_char d = ''0123456789abcdef'' ! d"

fun surrogate_escape :: "string \<Rightarrow> string" where
  "surrogate_escape (c1 # c2 # c3 # cs) =
     (let h = (of_char c2 :: nat) - 128; l = (of_char c3 :: nat) - 128
      in [CHR 0x5C, CHR ''u'', CHR ''d'', hex_char (h div 4),
          hex_char ((h mod 4) * 4 + l div 16), hex_char (l mod 16)])"
| "surrogate_escape cs = []"

definition sample_print :: "string \<Rightarrow> pyexc option" where
  "sample_print s =
     (case first_surrogate 0 s of
        None \<Rightarrow> None
      | Some (i, rest) \<Rightarrow>
          (let n = surrogate_run rest in
           Some (UnicodeEncodeError
             (if n = 1 then
                quote ''utf-8'' @ '' codec can'' @ [CHR 0x27] @ ''t encode character '' @
                quote (surrogate_escape rest) @ '' in position '' @ str_nat i @
                '': surrogates not allowed''
              else
                quote ''utf-8'' @ '' codec can'' @ [CHR 0x27] @ ''t encode characters in position '' @
                str_nat i @ ''-'' @ str_nat (i + n - 1) @ '': surrogates not allowed''))))"

text \<open>\<^verbatim>\<open>repr\<close> of a string is right for strings of letters, as those of the frames above
  are.\<close>

definition sample_lib :: "sample_float pylib" where
  "sample_lib =
     \<lparr>json_loads = sample_loads, float_repr = sample_float_repr, str_repr = quote,
      print_raises = sample_print\<rparr>"

section \<open>Properties\<close>

subsection \<open>Extending a run by one answer\<close>

lemma after_Nil: "after [] r = r"
  by (simp add: after_def)

lemma after_after: "after xs (after ys r) = after (xs @ ys) r"
  by (simp add: after_def)

lemma after_pair: "after xs (ys, st) = (xs @ ys, st)"
  by (simp add: after_def)

lemma inner_iteration_not_Blocked: "snd (inner_iteration L r) \<noteq> Blocked"
  by (simp add: inner_iteration_def split: sum.splits)

lemma inner_iteration_ok:
  "try_body L r = Inr line \<Longrightarrow> inner_iteration L r = ([Recv, Print line], Continue)"
  by (simp add: inner_iteration_def)



lemma inner_iteration_raise:
  "try_body L r = Inl e \<Longrightarrow> \<not> isinstance e ''ConnectionClosed'' \<Longrightarrow> \<not> isinstance e ''Exception'' \<Longrightarrow>
   inner_iteration L r = ([Recv], Raise e)"
  by (simp add: inner_iteration_def)

lemma inner_loop_Blocked:
  "inner_loop L pre = (acts, Blocked) \<Longrightarrow>
   \<exists>a. acts = a @ [Recv] \<and> (\<forall>rs. inner_loop L (pre @ rs) = after a (inner_loop L rs))"
proof (induction pre arbitrary: acts)
  case Nil
  then show ?case by (simp add: after_def)
next
  case (Cons r pre)
  obtain ia fl where it: "inner_iteration L r = (ia, fl)"
    by (cases "inner_iteration L r")
  with inner_iteration_not_Blocked [of L r] have nb: "fl \<noteq> Blocked" by simp
  obtain a' fl' where rest: "inner_loop L pre = (a', fl')"
    by (cases "inner_loop L pre")
  from Cons.prems it rest nb have fl: "fl = Continue" and fl': "fl' = Blocked" and acts: "acts = ia @ a'"
    by (cases fl; simp add: after_def)+
  from Cons.IH [of a'] rest fl' obtain a where
    a: "a' = a @ [Recv]" and ext: "\<forall>rs. inner_loop L (pre @ rs) = after a (inner_loop L rs)"
    by auto
  have "acts = (ia @ a) @ [Recv]" using acts a by simp
  moreover have "\<forall>rs. inner_loop L ((r # pre) @ rs) = after (ia @ a) (inner_loop L rs)"
    using it fl ext by (simp add: after_def)
  ultimately show ?case by blast
qed


lemma inner_step_ok:
  assumes "inner_loop L pre = (acts, Blocked)" and "try_body L r = Inr line"
  shows "inner_loop L (pre @ [r]) = (acts @ [Print line, Recv], Blocked)"
proof -
  from inner_loop_Blocked [OF assms(1)] obtain a where
    "acts = a @ [Recv]" and "\<forall>rs. inner_loop L (pre @ rs) = after a (inner_loop L rs)"
    by blast
  then show ?thesis
    using inner_iteration_ok [OF assms(2)] by (simp add: after_def)
qed



lemma inner_step_raise:
  assumes "inner_loop L pre = (acts, Blocked)" and "try_body L r = Inl e"
    and "\<not> isinstance e ''ConnectionClosed''" and "\<not> isinstance e ''Exception''"
  shows "inner_loop L (pre @ r # rs) = (acts, Raise e)"
proof -
  from inner_loop_Blocked [OF assms(1)] obtain a where
    "acts = a @ [Recv]" and "\<forall>rs. inner_loop L (pre @ rs) = after a (inner_loop L rs)"
    by blast
  then show ?thesis
    using inner_iteration_raise [OF assms(2,3,4)] by (simp add: after_def)
qed

lemma inner_loop_not_Break: "snd (inner_loop L rs) \<noteq> Break"
proof (induction rs)
  case Nil
  show ?case by simp
next
  case (Cons r rs)
  obtain ia fl where it: "inner_iteration L r = (ia, fl)"
    by (cases "inner_iteration L r")
  with Cons show ?case
    by (cases fl) (simp_all add: after_def)
qed

lemma async_with_not_Break: "snd (async_with L uri c) \<noteq> Break"
proof (cases c)
  case (Returns ws)
  obtain ia fl where il: "inner_loop L ws = (ia, fl)"
    by (cases "inner_loop L ws")
  with inner_loop_not_Break [of L ws] have "fl \<noteq> Break" by simp
  with Returns il show ?thesis
    by (cases fl) (simp_all add: async_with_def)
next
  case (Raises e)
  then show ?thesis by (simp add: async_with_def)
qed

lemma outer_iteration_not_Break: "snd (outer_iteration L uri c) \<noteq> Break"
proof -
  obtain acts fl where aw: "async_with L uri c = (acts, fl)"
    by (cases "async_with L uri c")
  with async_with_not_Break [of L uri c] have "fl \<noteq> Break" by simp
  with aw show ?thesis
    by (cases fl) (simp_all add: outer_iteration_def)
qed

lemma outer_loop_InConnect:
  "outer_loop L uri sc = (acts, InConnect) \<Longrightarrow>
   \<exists>a. acts = a @ [Connect uri] \<and> (\<forall>cs. outer_loop L uri (sc @ cs) = after a (outer_loop L uri cs))"
proof (induction sc arbitrary: acts)
  case Nil
  then show ?case by (simp add: after_def)
next
  case (Cons c sc)
  obtain oa fl where it: "outer_iteration L uri c = (oa, fl)"
    by (cases "outer_iteration L uri c")
  obtain a' st where rest: "outer_loop L uri sc = (a', st)"
    by (cases "outer_loop L uri sc")
  from Cons.prems it rest have fl: "fl = Continue" and st: "st = InConnect" and acts: "acts = oa @ a'"
    by (cases fl; simp add: after_def)+
  from Cons.IH [of a'] rest st obtain a where
    a: "a' = a @ [Connect uri]"
    and ext: "\<forall>cs. outer_loop L uri (sc @ cs) = after a (outer_loop L uri cs)"
    by auto
  have "acts = (oa @ a) @ [Connect uri]" using acts a by simp
  moreover have "\<forall>cs. outer_loop L uri ((c # sc) @ cs) = after (oa @ a) (outer_loop L uri cs)"
    using it fl ext by (simp add: after_def)
  ultimately show ?case by blast
qed


lemma listen_outer_loop: "listen L sc = outer_loop L ''ws://localhost:3001'' sc"
  by (simp add: listen_def)

lemma listen_extend:
  assumes "listen L sc = (a0, InConnect)"
  shows "\<exists>a. a0 = a @ [Connect ''ws://localhost:3001''] \<and>
           (\<forall>cs. listen L (sc @ cs) = after a (listen L cs))"
  using outer_loop_InConnect [of L "''ws://localhost:3001''" sc a0] assms
  by (simp add: listen_outer_loop)


lemma listen_single_connection:
  "listen L [Returns ws] =
     (case inner_loop L ws of
        (ia, Blocked) \<Rightarrow> (Connect ''ws://localhost:3001'' # ia, InRecv)
      | (ia, Continue) \<Rightarrow>
          (Connect ''ws://localhost:3001'' # ia @ [Close, Connect ''ws://localhost:3001''], InConnect)
      | (ia, Break) \<Rightarrow> (Connect ''ws://localhost:3001'' # ia @ [Close], Returned)
      | (ia, Raise e) \<Rightarrow>
          if isinstance e ''OSError'' \<or> isinstance e ''ConnectionClosedError'' then
            (Connect ''ws://localhost:3001'' # ia @
               [Close, Print ''Connection failed. Retrying in 5 seconds...'', Sleep 5,
                Connect ''ws://localhost:3001''], InConnect)
          else (Connect ''ws://localhost:3001'' # ia @ [Close], Uncaught e))"
proof -
  obtain ia fl where il: "inner_loop L ws = (ia, fl)"
    by (cases "inner_loop L ws")
  then show ?thesis
    by (cases fl) (simp_all add: listen_outer_loop outer_iteration_def async_with_def after_def)
qed


lemma listen_connection:
  assumes "listen L sc = (a0, InConnect)"
  shows "listen L (sc @ [Returns ws]) =
     (case inner_loop L ws of
        (ia, Blocked) \<Rightarrow> (a0 @ ia, InRecv)
      | (ia, Continue) \<Rightarrow> (a0 @ ia @ [Close, Connect ''ws://localhost:3001''], InConnect)
      | (ia, Break) \<Rightarrow> (a0 @ ia @ [Close], Returned)
      | (ia, Raise e) \<Rightarrow>
          if isinstance e ''OSError'' \<or> isinstance e ''ConnectionClosedError'' then
            (a0 @ ia @
               [Close, Print ''Connection failed. Retrying in 5 seconds...'', Sleep 5,
                Connect ''ws://localhost:3001''], InConnect)
          else (a0 @ ia @ [Close], Uncaught e))"
proof -
  from listen_extend [OF assms] obtain a where
    a: "a0 = a @ [Connect ''ws://localhost:3001'']"
    and ext: "\<forall>cs. listen L (sc @ cs) = after a (listen L cs)"
    by blast
  obtain ia fl where il: "inner_loop L ws = (ia, fl)"
    by (cases "inner_loop L ws")
  from ext have "listen L (sc @ [Returns ws]) = after a (listen L [Returns ws])"
    by blast
  with a il show ?thesis
    by (cases fl) (simp_all add: listen_single_connection after_def)
qed

lemma listen_connected:
  assumes "listen L sc = (a0, InConnect)"
    and "listen L (sc @ [Returns pre]) = (acts, InRecv)"
  shows "\<exists>ia. inner_loop L pre = (ia, Blocked) \<and> acts = a0 @ ia"
proof -
  obtain ia fl where il: "inner_loop L pre = (ia, fl)"
    by (cases "inner_loop L pre")
  from assms(2) il have "fl = Blocked \<and> acts = a0 @ ia"
    unfolding listen_connection [OF assms(1)]
    by (cases fl) (simp_all split: if_splits)
  with il show ?thesis by simp
qed


lemmas exception_defs =
  KeyError_def TypeError_def JSONDecodeError_def ConnectionRefusedError_def
  ConnectionClosedOK_def ConnectionClosedError_def InvalidStatus_def CancelledError_def
  UnicodeEncodeError_def

lemmas run_defs =
  listen_outer_loop outer_iteration_def async_with_def inner_iteration_def try_body_def
  after_def isinstance_def sample_lib_def sample_loads_def quote_def str_int_def digit_char_def
  sample_print_def is_continuation_def hex_char_def exception_defs

lemma try_body_rendered:
  assumes "json_loads L f = Inr (PDict kvs)"
    and "map_of kvs ''type'' = Some t" and "map_of kvs ''message'' = Some m"
    and "print_raises L (''['' @ py_format L t @ ''] '' @ py_format L m) = None"
  shows "try_body L (Returns f) = Inr (''['' @ py_format L t @ ''] '' @ py_format L m)"
  using assms by (simp add: try_body_def)

lemma listen_rendered:
  assumes "try_body L r = Inr line"
    and "listen L sc = (a0, InConnect)"
    and "listen L (sc @ [Returns pre]) = (acts, InRecv)"
  shows "listen L (sc @ [Returns (pre @ [r])]) = (acts @ [Print line, Recv], InRecv)"
proof -
  from listen_connected [OF assms(2,3)] obtain ia where
    ia: "inner_loop L pre = (ia, Blocked)" and acts: "acts = a0 @ ia"
    by blast
  from inner_step_ok [OF ia assms(1)] acts show ?thesis
    by (simp add: listen_connection [OF assms(2)])
qed



subsection \<open>The claims\<close>










text \<open>
  C3. An abrupt close of an established connection, the run of the code: \<^verbatim>\<open>recv\<close>
  raises \<^verbatim>\<open>ConnectionClosedError\<close>. The outer handler names that class and holds the
  failure line and the sleep of 5 seconds, but the exception is raised inside the inner
  \<^verbatim>\<open>try\<close>, whose handler for \<^verbatim>\<open>ConnectionClosed\<close>, the base class, takes it first.
  \<^verbatim>\<open>Connection closed.\<close> is printed, and the next call of \<^verbatim>\<open>websockets.connect\<close>
  follows the closing of the connection with no sleep between them.
\<close>

theorem abrupt_close_no_delay:
  "listen sample_lib [Returns [Raises (ConnectionClosedError ''no close frame received or sent'')]] =
     ([Connect ''ws://localhost:3001'', Recv, Print ''Connection closed.'', Close,
       Connect ''ws://localhost:3001''], InConnect) \<and>
   Sleep 5 \<notin> set (fst (listen sample_lib
     [Returns [Raises (ConnectionClosedError ''no close frame received or sent'')]]))"
  by (simp add: run_defs)













text \<open>
  C10, as stated, at a frame whose line cannot be printed: the frame
  \<^verbatim>\<open>{"type": 1, "message": "\udfff"}\<close> is a JSON object holding both keys, the first
  value not a string, the second a lone surrogate. On a standard output that encodes as
  UTF-8 \<^verbatim>\<open>print\<close> raises inside the \<^verbatim>\<open>try\<close>: the event is not rendered, the error
  line is printed and the connection is given up.
\<close>

theorem unprintable_field_not_rendered:
  \<open>json_loads sample_lib (TextFrame (''{"type": 1, "message": "'' @ [CHR 0x5C] @ ''udfff"}'')) =
     Inr (PDict [(''type'', PInt 1), (''message'', PStr [CHR 0xED, CHR 0xBF, CHR 0xBF])]) \<and>
   listen sample_lib
     [Returns [Returns (TextFrame (''{"type": 1, "message": "'' @ [CHR 0x5C] @ ''udfff"}''))]] =
   ([Connect ''ws://localhost:3001'', Recv,
     Print (''An error occurred: '' @ quote ''utf-8'' @ '' codec can'' @ [CHR 0x27] @
            ''t encode character '' @ quote ([CHR 0x5C] @ ''udfff'') @
            '' in position 4: surrogates not allowed''),
     Close, Connect ''ws://localhost:3001''], InConnect)\<close>
  by (simp add: run_defs)

text \<open>
  C10, amended. No check of the types of the two fields: a frame that \<^verbatim>\<open>json.loads\<close>
  turns into a dict holding \<^verbatim>\<open>type\<close> and \<^verbatim>\<open>message\<close>, with values \<open>t\<close> and
  \<open>m\<close> of any kind, and whose line \<^verbatim>\<open>print\<close> can write, is printed as
  \<^verbatim>\<open>[format(t)] format(m)\<close> and the client stays connected. The format of a string is
  the string; of \<^verbatim>\<open>None\<close>, \<^verbatim>\<open>True\<close> and \<^verbatim>\<open>False\<close> their names; of an integer its
  decimal numeral, so that the values 1 and 2 give \<^verbatim>\<open>[1] 2\<close>; of a float its
  \<^verbatim>\<open>repr\<close>; of a list and of a dict the \<^verbatim>\<open>repr\<close> of the elements, separated by a
  comma and a blank, inside brackets or braces.
\<close>

theorem fields_rendered_whatever_type:
  assumes "json_loads L f = Inr (PDict kvs)"
    and "map_of kvs ''type'' = Some t" and "map_of kvs ''message'' = Some m"
    and "print_raises L (''['' @ py_format L t @ ''] '' @ py_format L m) = None"
    and "listen L sc = (a0, InConnect)"
    and "listen L (sc @ [Returns pre]) = (acts, InRecv)"
  shows "listen L (sc @ [Returns (pre @ [Returns f])]) =
           (acts @ [Print (''['' @ py_format L t @ ''] '' @ py_format L m), Recv], InRecv) \<and>
         py_format L (PStr s) = s \<and>
         py_format L PNone = ''None'' \<and>
         py_format L (PBool True) = ''True'' \<and>
         py_format L (PBool False) = ''False'' \<and>
         py_format L (PInt 0) = ''0'' \<and>
         py_format L (PInt 1) = ''1'' \<and>
         py_format L (PInt 2) = ''2'' \<and>
         py_format L (PInt (- 12)) = ''-12'' \<and>
         py_format L (PInt 1234567890) = ''1234567890'' \<and>
         py_format L (PFloat x) = float_repr L x \<and>
         py_format L (PList []) = ''[]'' \<and>
         py_format L (PList [PInt 1]) = ''[1]'' \<and>
         py_format L (PList [PStr s, PNone, PList [], PFloat x]) =
           ''['' @ str_repr L s @ '', None, [], '' @ float_repr L x @ '']'' \<and>
         py_format L (PDict []) = ''{}'' \<and>
         py_format L (PDict [(k, PInt 1)]) = ''{'' @ str_repr L k @ '': 1}'' \<and>
         py_format L (PDict [(k, PStr s), (j, PBool True)]) =
           ''{'' @ str_repr L k @ '': '' @ str_repr L s @ '', '' @ str_repr L j @ '': True}''"
proof -
  have run: "listen L (sc @ [Returns (pre @ [Returns f])]) =
           (acts @ [Print (''['' @ py_format L t @ ''] '' @ py_format L m), Recv], InRecv)"
    by (rule listen_rendered [OF try_body_rendered [OF assms(1,2,3,4)] assms(5,6)])
  have ints: "py_format L (PInt 0) = ''0'' \<and> py_format L (PInt 1) = ''1'' \<and>
              py_format L (PInt 2) = ''2'' \<and> py_format L (PInt (- 12)) = ''-12'' \<and>
              py_format L (PInt 1234567890) = ''1234567890''"
    by (simp add: str_int_def digit_char_def)
  have lists: "py_format L (PList []) = ''[]'' \<and> py_format L (PList [PInt 1]) = ''[1]'' \<and>
               py_format L (PList [PStr s, PNone, PList [], PFloat x]) =
                 ''['' @ str_repr L s @ '', None, [], '' @ float_repr L x @ '']''"
    by (simp add: str_int_def digit_char_def)
  have dicts: "py_format L (PDict []) = ''{}'' \<and>
               py_format L (PDict [(k, PInt 1)]) = ''{'' @ str_repr L k @ '': 1}'' \<and>
               py_format L (PDict [(k, PStr s), (j, PBool True)]) =
                 ''{'' @ str_repr L k @ '': '' @ str_repr L s @ '', '' @ str_repr L j @ '': True}''"
    by (simp add: str_int_def digit_char_def)
  from run ints lists dicts show ?thesis
    by simp
qed

theorem fields_rendered_whatever_type_witness:
  \<open>listen sample_lib
     [Returns [Returns (TextFrame ''{"type": 1, "message": 2}''),
               Returns (TextFrame
                 ''{"type": [1, "a", null, true, false, {"k": -12, "j": []}, Infinity, -Infinity], "message": {}}'')]] =
   ([Connect ''ws://localhost:3001'', Recv, Print ''[1] 2'', Recv,
     Print (''[[1, '' @ quote ''a'' @ '', None, True, False, {'' @ quote ''k'' @ '': -12, '' @
            quote ''j'' @ '': []}, inf, -inf]] {}''),
     Recv], InRecv) \<and>
   listen sample_lib [Returns [Returns (TextFrame ''{"type": 1234567890, "message": [[]]}'')]] =
   ([Connect ''ws://localhost:3001'', Recv, Print ''[1234567890] [[]]'', Recv], InRecv)\<close>
proof -
  let ?nested = \<open>TextFrame
    ''{"type": [1, "a", null, true, false, {"k": -12, "j": []}, Infinity, -Infinity], "message": {}}''\<close>
  let ?tv = "PList [PInt 1, PStr ''a'', PNone, PBool True, PBool False,
                    PDict [(''k'', PInt (- 12)), (''j'', PList [])],
                    PFloat Infinity, PFloat MinusInfinity] :: sample_float pyval"
  have a1: "json_loads sample_lib ?nested = Inr (PDict [(''type'', ?tv), (''message'', PDict [])])"
    by (simp add: sample_lib_def sample_loads_def)
  have a2: "map_of [(''type'', ?tv), (''message'', PDict [])] ''type'' = Some ?tv"
    by simp
  have a3: "map_of [(''type'', ?tv), (''message'', PDict [])] ''message'' = Some (PDict [])"
    by simp
  have a4: "print_raises sample_lib
              (''['' @ py_format sample_lib ?tv @ ''] '' @ py_format sample_lib (PDict [])) = None"
    by (simp add: sample_lib_def sample_print_def is_continuation_def quote_def str_int_def
                  digit_char_def)
  have a5: "listen sample_lib [] = ([Connect ''ws://localhost:3001''], InConnect)"
    by (simp add: run_defs)
  have a6: \<open>listen sample_lib ([] @ [Returns [Returns (TextFrame ''{"type": 1, "message": 2}'')]]) =
            ([Connect ''ws://localhost:3001'', Recv, Print ''[1] 2'', Recv], InRecv)\<close>
    by (simp add: run_defs)
  have b1: \<open>json_loads sample_lib (TextFrame ''{"type": 1234567890, "message": [[]]}'') =
             Inr (PDict [(''type'', PInt 1234567890), (''message'', PList [PList []])])\<close>
    by (simp add: sample_lib_def sample_loads_def)
  have b2: "map_of [(''type'', PInt 1234567890), (''message'', PList [PList []] :: sample_float pyval)]
              ''type'' = Some (PInt 1234567890)"
    by simp
  have b3: "map_of [(''type'', PInt 1234567890), (''message'', PList [PList []] :: sample_float pyval)]
              ''message'' = Some (PList [PList []])"
    by simp
  have b4: "print_raises sample_lib
              (''['' @ py_format sample_lib (PInt 1234567890) @ ''] '' @
               py_format sample_lib (PList [PList []])) = None"
    by (simp add: sample_lib_def sample_print_def is_continuation_def str_int_def digit_char_def)
  have b6: "listen sample_lib ([] @ [Returns []]) = ([Connect ''ws://localhost:3001'', Recv], InRecv)"
    by (simp add: run_defs)
  from fields_rendered_whatever_type [OF a1 a2 a3 a4 a5 a6]
       fields_rendered_whatever_type [OF b1 b2 b3 b4 a5 b6]
  show ?thesis
    by (simp add: sample_lib_def quote_def str_int_def digit_char_def)
qed

lemma inner_iteration_actions:
  "set (fst (inner_iteration L r)) \<subseteq> insert Recv (range Print)"
  by (auto simp: inner_iteration_def split: sum.splits)

lemma inner_loop_actions:
  "set (fst (inner_loop L rs)) \<subseteq> insert Recv (range Print)"
proof (induction rs)
  case Nil
  show ?case by simp
next
  case (Cons r rs)
  obtain ia fl where it: "inner_iteration L r = (ia, fl)"
    by (cases "inner_iteration L r")
  with inner_iteration_actions [of L r] have "set ia \<subseteq> insert Recv (range Print)"
    by simp
  with Cons it show ?case
    by (cases fl) (auto simp: after_def)
qed

lemma outer_iteration_actions:
  "set (fst (outer_iteration L uri c)) \<subseteq> {Connect uri, Recv, Close, Sleep 5} \<union> range Print"
proof (cases c)
  case (Returns ws)
  obtain ia fl where il: "inner_loop L ws = (ia, fl)"
    by (cases "inner_loop L ws")
  with inner_loop_actions [of L ws] have "set ia \<subseteq> insert Recv (range Print)"
    by simp
  with Returns il show ?thesis
    by (cases fl) (auto simp: outer_iteration_def async_with_def)
next
  case (Raises e)
  then show ?thesis
    by (auto simp: outer_iteration_def async_with_def)
qed

lemma outer_loop_actions:
  "set (fst (outer_loop L uri sc)) \<subseteq> {Connect uri, Recv, Close, Sleep 5} \<union> range Print"
proof (induction sc)
  case Nil
  show ?case by simp
next
  case (Cons c sc)
  obtain oa fl where it: "outer_iteration L uri c = (oa, fl)"
    by (cases "outer_iteration L uri c")
  with outer_iteration_actions [of L uri c]
  have "set oa \<subseteq> {Connect uri, Recv, Close, Sleep 5} \<union> range Print"
    by simp
  with Cons it show ?case
    by (cases fl) (auto simp: after_def)
qed

text \<open>
  C8. Whatever the surroundings answer, every action of \<^verbatim>\<open>listen\<close> is the connect to
  \<^verbatim>\<open>ws://localhost:3001\<close>, a \<^verbatim>\<open>recv\<close>, the closing of the connection, a
  \<^verbatim>\<open>print\<close> or the sleep of 5 seconds; no message is ever sent.
\<close>

theorem never_sends:
  "Send m \<notin> set (fst (listen L sc)) \<and>
   set (fst (listen L sc)) \<subseteq>
     {Connect ''ws://localhost:3001'', Recv, Close, Sleep 5} \<union> range Print"
  using outer_loop_actions [of L "''ws://localhost:3001''" sc]
  by (auto simp: listen_outer_loop)

theorem never_sends_witness:
  \<open>Send ''ping'' \<notin> set (fst (listen sample_lib
     [Raises (ConnectionRefusedError ''refused''),
      Returns [Returns (TextFrame ''{"type":"INFO","message":"started"}''),
               Raises (ConnectionClosedOK '''')]]))\<close>
  using never_sends [of "''ping''" sample_lib
     \<open>[Raises (ConnectionRefusedError ''refused''),
      Returns [Returns (TextFrame ''{"type":"INFO","message":"started"}''),
               Raises (ConnectionClosedOK '''')]]\<close>]
  by simp







end
